theory Spec2Isabelle
  imports Main "HOL-Library.AList" "HOL-Library.Sublist"
begin

section \<open>Values and exceptions\<close>

text \<open>
  The schema translator works on parsed JSON: \<open>None\<close>, booleans, numbers, strings, lists
  and dicts. A dict is an association list in insertion order; a lookup takes the first
  pair with the key, and a store (\<open>AList.update\<close>) overwrites the value of a key that is
  there and appends a new key at the end, as a Python dict does. The translator never
  inspects a number, so one constructor stands for \<open>int\<close> and \<open>float\<close> alike.
\<close>

datatype json =
    JNull
  | JBool bool
  | JNum int
  | JStr string
  | JList "json list"
  | JDict "(string \<times> json) list"

text \<open>
  The exceptions that the modelled code and its libraries raise. All but the last are
  instances of Python's \<open>Exception\<close>; \<open>OtherError n\<close> is any such exception of a class
  the source does not name. \<open>CancelledError\<close> (the cancellation of the running task, which
  any \<open>await\<close> can raise) is a \<open>BaseException\<close> that is not an \<open>Exception\<close>, and stands
  for the others of that kind: \<open>except Exception\<close> does not catch it.
\<close>

datatype exn =
    KeyError string
  | TypeError
  | AttributeError
  | ValueError
  | FileNotFoundError
  | OtherError nat
  | CancelledError

text \<open>\<open>isinstance(e, Exception)\<close>.\<close>

fun isinstance_Exception :: "exn \<Rightarrow> bool" where
  "isinstance_Exception CancelledError = False"
| "isinstance_Exception e = True"

text \<open>Sequencing of steps that may raise: the first exception ends the computation.\<close>

definition bindE :: "exn + 'a \<Rightarrow> ('a \<Rightarrow> exn + 'b) \<Rightarrow> exn + 'b" where
  "bindE m f = (case m of Inl e \<Rightarrow> Inl e | Inr v \<Rightarrow> f v)"

subsection \<open>The dict operations the translator uses\<close>

text \<open>\<open>isinstance(x, dict)\<close>.\<close>

fun isinstance_dict :: "json \<Rightarrow> bool" where
  "isinstance_dict (JDict kvs) = True"
| "isinstance_dict x = False"

text \<open>
  \<open>k in x\<close>. The source evaluates it only behind \<open>isinstance(x, dict)\<close> (its \<open>or\<close> and
  \<open>and\<close> short-circuit), so only the dict case is ever reached.
\<close>

fun has_key :: "string \<Rightarrow> json \<Rightarrow> bool" where
  "has_key k (JDict kvs) = (map_of kvs k \<noteq> None)"
| "has_key k x = False"

text \<open>\<open>x[k]\<close>: a missing key raises \<open>KeyError\<close>.\<close>

fun getitem :: "json \<Rightarrow> string \<Rightarrow> exn + json" where
  "getitem (JDict kvs) k = (case map_of kvs k of None \<Rightarrow> Inl (KeyError k) | Some v \<Rightarrow> Inr v)"
| "getitem x k = Inl TypeError"

text \<open>\<open>x.get(k, default)\<close>.\<close>

fun dict_get :: "json \<Rightarrow> string \<Rightarrow> json \<Rightarrow> exn + json" where
  "dict_get (JDict kvs) k d = (case map_of kvs k of None \<Rightarrow> Inr d | Some v \<Rightarrow> Inr v)"
| "dict_get x k d = Inl AttributeError"

text \<open>\<open>x[k] = v\<close>, returning the dict after the store.\<close>

fun setitem :: "json \<Rightarrow> string \<Rightarrow> json \<Rightarrow> exn + json" where
  "setitem (JDict kvs) k v = Inr (JDict (AList.update k v kvs))"
| "setitem x k v = Inl TypeError"

text \<open>
  \<open>new_func["parameters"][k] = v\<close>: the inner dict is fetched, stored into, and (being
  the same object in Python) the outer dict sees the store.
\<close>

definition set_parameter :: "json \<Rightarrow> string \<Rightarrow> json \<Rightarrow> exn + json" where
  "set_parameter new_func k v =
     bindE (getitem new_func ''parameters'') (\<lambda>parameters.
     bindE (setitem parameters k v) (\<lambda>parameters'.
     setitem new_func ''parameters'' parameters'))"

section \<open>Schema translator: \<open>MCPClient.transform_json\<close>\<close>

text \<open>
  The body of the \<open>for\<close> loop on one item. \<open>Inr None\<close> is \<open>continue\<close>; \<open>Inr (Some x)\<close>
  is \<open>result.append(x)\<close>; \<open>Inl e\<close> is an exception leaving the loop.
\<close>

definition transform_item :: "json \<Rightarrow> exn + json option" where
  "transform_item item =
     (if \<not> isinstance_dict item \<or> \<not> has_key ''type'' item \<or> \<not> has_key ''function'' item
      then Inr None
      else
        bindE (getitem item ''function'') (\<lambda>old_func.
        if \<not> isinstance_dict old_func \<or> \<not> has_key ''name'' old_func
           \<or> \<not> has_key ''description'' old_func
        then Inr None
        else
          bindE (getitem old_func ''name'') (\<lambda>name.
          bindE (getitem old_func ''description'') (\<lambda>description.
          let new_func = JDict [(''name'', name), (''description'', description),
                                (''parameters'', JDict [])]
          in
          bindE (if has_key ''input_schema'' old_func
                 then bindE (getitem old_func ''input_schema'') (\<lambda>s. Inr (isinstance_dict s))
                 else Inr False) (\<lambda>schema_is_dict.
          bindE (if schema_is_dict
                 then
                   bindE (getitem old_func ''input_schema'') (\<lambda>old_schema.
                   bindE (dict_get old_schema ''type'' (JStr ''object'')) (\<lambda>ty.
                   bindE (set_parameter new_func ''type'' ty) (\<lambda>new_func.
                   bindE (dict_get old_schema ''properties'' (JDict [])) (\<lambda>props.
                   bindE (set_parameter new_func ''properties'' props) (\<lambda>new_func.
                   if has_key ''required'' old_schema
                   then bindE (getitem old_schema ''required'') (\<lambda>req.
                        set_parameter new_func ''required'' req)
                   else Inr new_func)))))
                 else Inr new_func) (\<lambda>new_func.
          Inr (Some (JDict [(''type'', JStr ''function''), (''function'', new_func)]))))))))"

text \<open>The loop over \<open>json2_data\<close>, with \<open>result\<close> as the list built so far.\<close>

fun transform_json_loop :: "json list \<Rightarrow> json list \<Rightarrow> exn + json list" where
  "transform_json_loop result [] = Inr result"
| "transform_json_loop result (item # rest) =
     (case transform_item item of
        Inl e \<Rightarrow> Inl e
      | Inr None \<Rightarrow> transform_json_loop result rest
      | Inr (Some new_item) \<Rightarrow> transform_json_loop (result @ [new_item]) rest)"

definition transform_json :: "json list \<Rightarrow> exn + json list" where
  "transform_json json2_data = transform_json_loop [] json2_data"

text \<open>
  What the claims call a valid source item, in the words of the specification: a dict
  with a \<open>"function"\<close> key whose value is a dict with \<open>"name"\<close> and \<open>"description"\<close>.
\<close>

definition valid_function :: "json \<Rightarrow> bool" where
  "valid_function f = (isinstance_dict f \<and> has_key ''name'' f \<and> has_key ''description'' f)"

definition claimed_valid_item :: "json \<Rightarrow> bool" where
  "claimed_valid_item item =
     (isinstance_dict item \<and>
      (case getitem item ''function'' of Inr f \<Rightarrow> valid_function f | Inl e \<Rightarrow> False))"

text \<open>What the source checks: the same, and a top-level \<open>"type"\<close> key.\<close>

definition accepted_item :: "json \<Rightarrow> bool" where
  "accepted_item item = (has_key ''type'' item \<and> claimed_valid_item item)"

text \<open>What one pass of the loop body adds to \<open>result\<close>.\<close>

definition appended :: "json \<Rightarrow> json list" where
  "appended item = (case transform_item item of Inr (Some x) \<Rightarrow> [x] | _ \<Rightarrow> [])"

text \<open>The \<open>parameters\<close> dict that the source builds from a function descriptor.\<close>

definition expected_parameters :: "(string \<times> json) list \<Rightarrow> (string \<times> json) list" where
  "expected_parameters f =
     (case map_of f ''input_schema'' of
        Some (JDict s) \<Rightarrow>
          [(''type'', case map_of s ''type'' of None \<Rightarrow> JStr ''object'' | Some t \<Rightarrow> t),
           (''properties'', case map_of s ''properties'' of None \<Rightarrow> JDict [] | Some p \<Rightarrow> p)]
          @ (case map_of s ''required'' of None \<Rightarrow> [] | Some r \<Rightarrow> [(''required'', r)])
      | _ \<Rightarrow> [])"

section \<open>Connection manager: \<open>MCPClient\<close>\<close>

text \<open>
  The transport, the session and the exit stack belong to libraries outside the
  repository. Their objects are opaque handles; what a call to them returns or raises is
  a parameter of the model (\<open>mcp\<close> below) and may depend on every external call made
  before it: the log of those calls stands for the state of the outside world, and is
  also what shows which calls a method made. Console output is not modelled.
\<close>

type_synonym stream = nat
type_synonym session = nat

record tool =
  tool_name :: string
  tool_description :: string

text \<open>\<open>StdioServerParameters(command=..., args=..., env=...)\<close>.\<close>

record server_params =
  command :: string
  args :: "string list"
  env :: "(string \<times> string) list option"

text \<open>
  The two context managers the client enters: \<open>stdio_client(server_params)\<close>, which
  launches the subprocess, and \<open>ClientSession(read, write)\<close>.
\<close>

datatype ctx = StdioClient server_params | ClientSession stream stream

datatype call = Enter ctx | Exit ctx | Initialize session | ListTools session

record mcp =
  stdio_client_enter :: "call list \<Rightarrow> server_params \<Rightarrow> exn + (stream \<times> stream)"
  client_session_enter :: "call list \<Rightarrow> stream \<Rightarrow> stream \<Rightarrow> exn + session"
  session_initialize :: "call list \<Rightarrow> session \<Rightarrow> exn + unit"
  session_list_tools :: "call list \<Rightarrow> session \<Rightarrow> exn + tool list"
  context_exit :: "call list \<Rightarrow> ctx \<Rightarrow> exn option \<Rightarrow> exn + bool"

text \<open>
  The fields of an \<open>MCPClient\<close>. \<open>exit_stack\<close> holds the contexts entered and not yet
  exited, the latest first. The \<open>OpenAI\<close> object built from the key and the base URL
  takes no part in the methods modelled here.
\<close>

record client =
  exit_stack :: "ctx list"
  openai_api_key :: string
  base_url :: "string option"
  model :: "string option"
  session :: "session option"
  stdio_read :: "stream option"
  stdio_write :: "stream option"

text \<open>\<open>__init__\<close>, with \<open>os.getenv\<close> as a parameter. An empty key is falsy, as a missing one.\<close>

definition MCPClient_init :: "(string \<Rightarrow> string option) \<Rightarrow> exn + client" where
  "MCPClient_init getenv =
     (case getenv ''OPENAI_API_KEY'' of
        None \<Rightarrow> Inl ValueError
      | Some key \<Rightarrow>
          if key = [] then Inl ValueError
          else Inr \<lparr>exit_stack = [], openai_api_key = key, base_url = getenv ''BASE_URL'',
                    model = getenv ''MODEL'', session = None, stdio_read = None,
                    stdio_write = None\<rparr>)"

text \<open>
  \<open>AsyncExitStack.aclose()\<close>, as the standard library runs it: every context on the
  stack is exited, the latest first, and the stack is empty afterwards. An exit that
  raises leaves its exception pending for the exits that follow; an exit that returns
  true clears a pending exception; an exception still pending at the end is raised.
\<close>

fun aclose_loop :: "mcp \<Rightarrow> ctx list \<Rightarrow> exn option \<Rightarrow> call list \<Rightarrow> exn option \<times> call list"
  where
  "aclose_loop m [] pending tr = (pending, tr)"
| "aclose_loop m (cb # callbacks) pending tr =
     (case context_exit m tr cb pending of
        Inl new_exc \<Rightarrow> aclose_loop m callbacks (Some new_exc) (tr @ [Exit cb])
      | Inr suppress \<Rightarrow>
          aclose_loop m callbacks (if suppress then None else pending) (tr @ [Exit cb]))"

definition aclose :: "mcp \<Rightarrow> client \<Rightarrow> call list \<Rightarrow> (exn + unit) \<times> client \<times> call list" where
  "aclose m c tr =
     (case aclose_loop m (exit_stack c) None tr of
        (None, tr') \<Rightarrow> (Inr (), c\<lparr>exit_stack := []\<rparr>, tr')
      | (Some e, tr') \<Rightarrow> (Inl e, c\<lparr>exit_stack := []\<rparr>, tr'))"

text \<open>\<open>cleanup\<close>: the three fields are reset only once \<open>aclose\<close> has returned.\<close>

definition cleanup :: "mcp \<Rightarrow> client \<Rightarrow> call list \<Rightarrow> (exn + unit) \<times> client \<times> call list" where
  "cleanup m c tr =
     (case aclose m c tr of
        (Inl e, c', tr') \<Rightarrow> (Inl e, c', tr')
      | (Inr u, c', tr') \<Rightarrow>
          (Inr (), c'\<lparr>session := None, stdio_read := None, stdio_write := None\<rparr>, tr'))"

text \<open>\<open>str.endswith\<close>.\<close>

definition endswith :: "string \<Rightarrow> string \<Rightarrow> bool" where
  "endswith s suf = suffix suf s"

text \<open>
  The \<open>try\<close> block of \<open>connect_and_list_tools\<close>. \<open>enter_async_context\<close> pushes a context
  on the exit stack once it has been entered; a call that raises is logged as made.
\<close>

definition connect_try ::
  "mcp \<Rightarrow> server_params \<Rightarrow> client \<Rightarrow> call list \<Rightarrow> (exn + tool list) \<times> client \<times> call list"
  where
  "connect_try m sp c tr =
     (case stdio_client_enter m tr sp of
        Inl e \<Rightarrow> (Inl e, c, tr @ [Enter (StdioClient sp)])
      | Inr (r, w) \<Rightarrow>
          let tr1 = tr @ [Enter (StdioClient sp)];
              c1 = c\<lparr>exit_stack := StdioClient sp # exit_stack c\<rparr>;
              c2 = c1\<lparr>stdio_read := Some r, stdio_write := Some w\<rparr>
          in
          (case client_session_enter m tr1 r w of
             Inl e \<Rightarrow> (Inl e, c2, tr1 @ [Enter (ClientSession r w)])
           | Inr s \<Rightarrow>
               let tr2 = tr1 @ [Enter (ClientSession r w)];
                   c3 = c2\<lparr>exit_stack := ClientSession r w # exit_stack c2,
                           session := Some s\<rparr>
               in
               (case session_initialize m tr2 s of
                  Inl e \<Rightarrow> (Inl e, c3, tr2 @ [Initialize s])
                | Inr u \<Rightarrow>
                    let tr3 = tr2 @ [Initialize s] in
                    (case session_list_tools m tr3 s of
                       Inl e \<Rightarrow> (Inl e, c3, tr3 @ [ListTools s])
                     | Inr tools \<Rightarrow> (Inr tools, c3, tr3 @ [ListTools s])))))"

text \<open>
  The two \<open>except\<close> clauses, for \<open>FileNotFoundError\<close> and for \<open>Exception\<close>: each
  calls \<open>cleanup\<close> and then re-raises with a bare \<open>raise\<close>, which is reached only when
  \<open>cleanup\<close> returns. An exception that neither clause catches leaves the method as it
  is, with no \<open>cleanup\<close>. In the branch of a client that has a session, the one clause
  re-raises what it catches, so every exception of the listing reaches the caller.
\<close>

definition cleanup_and_reraise ::
  "mcp \<Rightarrow> exn \<Rightarrow> client \<Rightarrow> call list \<Rightarrow> (exn + tool list) \<times> client \<times> call list" where
  "cleanup_and_reraise m e c tr =
     (case cleanup m c tr of
        (Inl e2, c', tr') \<Rightarrow> (Inl e2, c', tr')
      | (Inr u, c', tr') \<Rightarrow> (Inl e, c', tr'))"

definition connect_and_list_tools ::
  "mcp \<Rightarrow> string \<Rightarrow> client \<Rightarrow> call list \<Rightarrow> (exn + tool list) \<times> client \<times> call list" where
  "connect_and_list_tools m server_script_path c tr =
     (case session c of
        Some s \<Rightarrow>
          (case session_list_tools m tr s of
             Inr tools \<Rightarrow> (Inr tools, c, tr @ [ListTools s])
           | Inl e \<Rightarrow> (Inl e, c, tr @ [ListTools s]))
      | None \<Rightarrow>
          let is_python = endswith server_script_path ''.py'';
              is_js = endswith server_script_path ''.js''
          in
          if \<not> (is_python \<or> is_js) then (Inl ValueError, c, tr)
          else
            let sp = \<lparr>command = (if is_python then ''python'' else ''node''),
                      args = [server_script_path], env = None\<rparr>
            in
            (case connect_try m sp c tr of
               (Inr tools, c', tr') \<Rightarrow> (Inr tools, c', tr')
             | (Inl e, c', tr') \<Rightarrow>
                 if e = FileNotFoundError then cleanup_and_reraise m e c' tr'
                 else if isinstance_Exception e then cleanup_and_reraise m e c' tr'
                 else (Inl e, c', tr')))"

text \<open>
  \<open>cleanup\<close> called \<open>n\<close> times in a row by a caller that stops at the first
  exception.
\<close>

fun cleanup_times :: "nat \<Rightarrow> mcp \<Rightarrow> client \<Rightarrow> call list \<Rightarrow> (exn + unit) \<times> client \<times> call list"
  where
  "cleanup_times 0 m c tr = (Inr (), c, tr)"
| "cleanup_times (Suc n) m c tr =
     (case cleanup m c tr of
        (Inl e, c', tr') \<Rightarrow> (Inl e, c', tr')
      | (Inr u, c', tr') \<Rightarrow> cleanup_times n m c' tr')"


section \<open>Retrieval tool: \<open>rag_ML\<close>\<close>

text \<open>
  The configuration loader, the parquet reader and the global search are external; the
  configuration, the tables and the search context are opaque handles. As for the client,
  what each call yields is a parameter and the calls made are logged.
\<close>

type_synonym config = nat
type_synonym dataframe = nat
type_synonym search_context = nat

text \<open>The keyword arguments of \<open>api.global_search\<close>.\<close>

record search_args =
  config :: config
  entities :: dataframe
  communities :: dataframe
  community_reports :: dataframe
  community_level :: int
  dynamic_community_selection :: bool
  response_type :: string
  query :: string

datatype rag_call = LoadConfig string | ReadParquet string | GlobalSearch search_args

record graphrag =
  load_config :: "rag_call list \<Rightarrow> string \<Rightarrow> exn + config"
  read_parquet :: "rag_call list \<Rightarrow> string \<Rightarrow> exn + dataframe"
  global_search :: "rag_call list \<Rightarrow> search_args \<Rightarrow> exn + (string \<times> search_context)"

definition PROJECT_DIRECTORY :: string where
  "PROJECT_DIRECTORY = ''/root/autodl-tmp/MCP/mcp-graphrag/graphrag''"

definition rag_ML :: "graphrag \<Rightarrow> string \<Rightarrow> rag_call list \<Rightarrow> (exn + string) \<times> rag_call list"
  where
  "rag_ML g q tr =
     (case load_config g tr PROJECT_DIRECTORY of
        Inl e \<Rightarrow> (Inl e, tr @ [LoadConfig PROJECT_DIRECTORY])
      | Inr graphrag_config \<Rightarrow>
     let tr1 = tr @ [LoadConfig PROJECT_DIRECTORY];
         p1 = PROJECT_DIRECTORY @ ''/output/entities.parquet'' in
     (case read_parquet g tr1 p1 of
        Inl e \<Rightarrow> (Inl e, tr1 @ [ReadParquet p1])
      | Inr ents \<Rightarrow>
     let tr2 = tr1 @ [ReadParquet p1];
         p2 = PROJECT_DIRECTORY @ ''/output/communities.parquet'' in
     (case read_parquet g tr2 p2 of
        Inl e \<Rightarrow> (Inl e, tr2 @ [ReadParquet p2])
      | Inr comms \<Rightarrow>
     let tr3 = tr2 @ [ReadParquet p2];
         p3 = PROJECT_DIRECTORY @ ''/output/community_reports.parquet'' in
     (case read_parquet g tr3 p3 of
        Inl e \<Rightarrow> (Inl e, tr3 @ [ReadParquet p3])
      | Inr reports \<Rightarrow>
     let tr4 = tr3 @ [ReadParquet p3];
         a = \<lparr>config = graphrag_config, entities = ents, communities = comms,
              community_reports = reports, community_level = 2,
              dynamic_community_selection = False,
              response_type = ''Multiple Paragraphs'', query = q\<rparr> in
     (case global_search g tr4 a of
        Inl e \<Rightarrow> (Inl e, tr4 @ [GlobalSearch a])
      | Inr (response, ctxt) \<Rightarrow> (Inr response, tr4 @ [GlobalSearch a]))))))"

text \<open>The four loads that precede the search, as calls.\<close>

definition load_calls :: "rag_call list" where
  "load_calls =
     [LoadConfig PROJECT_DIRECTORY,
      ReadParquet (PROJECT_DIRECTORY @ ''/output/entities.parquet''),
      ReadParquet (PROJECT_DIRECTORY @ ''/output/communities.parquet''),
      ReadParquet (PROJECT_DIRECTORY @ ''/output/community_reports.parquet'')]"

text \<open>The configuration and the three tables load, none of the four calls raising.\<close>

definition artifacts_load :: "graphrag \<Rightarrow> rag_call list \<Rightarrow> bool" where
  "artifacts_load g tr =
     (case load_config g tr PROJECT_DIRECTORY of
        Inl e \<Rightarrow> False
      | Inr cfg \<Rightarrow>
     (case read_parquet g (tr @ take 1 load_calls)
             (PROJECT_DIRECTORY @ ''/output/entities.parquet'') of
        Inl e \<Rightarrow> False
      | Inr ents \<Rightarrow>
     (case read_parquet g (tr @ take 2 load_calls)
             (PROJECT_DIRECTORY @ ''/output/communities.parquet'') of
        Inl e \<Rightarrow> False
      | Inr comms \<Rightarrow>
     (case read_parquet g (tr @ take 3 load_calls)
             (PROJECT_DIRECTORY @ ''/output/community_reports.parquet'') of
        Inl e \<Rightarrow> False
      | Inr reports \<Rightarrow> True))))"

section \<open>Example clients and environments\<close>

text \<open>A client as \<open>__init__\<close> leaves it, and the environment variables that give it.\<close>

definition example_getenv :: "string \<Rightarrow> string option" where
  "example_getenv k = (if k = ''OPENAI_API_KEY'' then Some ''sk-test'' else None)"

definition example_client :: client where
  "example_client = \<lparr>exit_stack = [], openai_api_key = ''sk-test'', base_url = None,
     model = None, session = None, stdio_read = None, stdio_write = None\<rparr>"

text \<open>The same client once \<open>connect_and_list_tools(''server.py'')\<close> has returned.\<close>

definition connected_client :: client where
  "connected_client = example_client\<lparr>exit_stack := [ClientSession 0 1,
       StdioClient \<lparr>command = ''python'', args = [''server.py''], env = None\<rparr>],
     session := Some 2, stdio_read := Some 0, stdio_write := Some 1\<rparr>"

text \<open>
  A tool server whose launch and session opening succeed, whose handshake and context
  exits do as the two parameters say, and whose tool list is empty until it has been
  asked once.
\<close>

definition example_mcp :: "exn + unit \<Rightarrow> exn + bool \<Rightarrow> mcp" where
  "example_mcp init_result exit_result =
     \<lparr>stdio_client_enter = (\<lambda>tr sp. Inr (0, 1)),
      client_session_enter = (\<lambda>tr r w. Inr 2),
      session_initialize = (\<lambda>tr s. init_result),
      session_list_tools = (\<lambda>tr s.
         Inr (if ListTools s \<in> set tr then [\<lparr>tool_name = ''rag_ML'', tool_description = ''search''\<rparr>] else [])),
      context_exit = (\<lambda>tr cb pending. exit_result)\<rparr>"

text \<open>
  A retrieval library whose configuration loader does as the parameter says, whose
  tables load, and whose search answers with the query after a prefix.
\<close>

definition example_graphrag :: "exn + config \<Rightarrow> graphrag" where
  "example_graphrag config_result =
     \<lparr>load_config = (\<lambda>tr p. config_result),
      read_parquet = (\<lambda>tr p. Inr (length tr)),
      global_search = (\<lambda>tr a. Inr (''re: '' @ query a, 9))\<rparr>"

section \<open>Properties of the schema translator\<close>

lemma isinstance_dictE: "isinstance_dict x \<Longrightarrow> (\<And>kvs. x = JDict kvs \<Longrightarrow> P) \<Longrightarrow> P"
  by (cases x) simp_all

lemma transform_item_accepted:
  assumes "map_of kvs ''type'' = Some t" "map_of kvs ''function'' = Some (JDict f)"
    "map_of f ''name'' = Some n" "map_of f ''description'' = Some d"
  shows "transform_item (JDict kvs) = Inr (Some (JDict [(''type'', JStr ''function''),
           (''function'', JDict [(''name'', n), (''description'', d),
              (''parameters'', JDict (expected_parameters f))])]))"
  using assms
  by (simp add: transform_item_def bindE_def set_parameter_def expected_parameters_def
      split: option.splits json.splits)

lemma accepted_item_iff:
  "accepted_item item \<longleftrightarrow>
     (\<exists>kvs t f n d. item = JDict kvs \<and> map_of kvs ''type'' = Some t \<and>
        map_of kvs ''function'' = Some (JDict f) \<and> map_of f ''name'' = Some n \<and>
        map_of f ''description'' = Some d)"
  by (cases item)
    (auto simp add: accepted_item_def claimed_valid_item_def valid_function_def
      split: option.splits elim!: isinstance_dictE)

lemma transform_item_rejected:
  assumes "\<not> accepted_item item"
  shows "transform_item item = Inr None"
  using assms unfolding accepted_item_iff
  by (cases item)
    (auto simp add: transform_item_def bindE_def split: option.splits elim!: isinstance_dictE)

lemma appended_rejected: "\<not> accepted_item item \<Longrightarrow> appended item = []"
  by (simp add: appended_def transform_item_rejected)

lemma appended_accepted:
  assumes "map_of kvs ''type'' = Some t" "map_of kvs ''function'' = Some (JDict f)"
    "map_of f ''name'' = Some n" "map_of f ''description'' = Some d"
  shows "appended (JDict kvs) = [JDict [(''type'', JStr ''function''),
           (''function'', JDict [(''name'', n), (''description'', d),
              (''parameters'', JDict (expected_parameters f))])]]"
  by (simp add: appended_def transform_item_accepted [OF assms])

lemma transform_item_appended:
  "transform_item item = Inr (case appended item of [] \<Rightarrow> None | x # xs \<Rightarrow> Some x)"
proof (cases "accepted_item item")
  case True
  then obtain kvs t f n d where "item = JDict kvs" "map_of kvs ''type'' = Some t"
    "map_of kvs ''function'' = Some (JDict f)" "map_of f ''name'' = Some n"
    "map_of f ''description'' = Some d"
    unfolding accepted_item_iff by blast
  then show ?thesis
    by (simp add: appended_def transform_item_accepted)
next
  case False
  then show ?thesis
    by (simp add: appended_def transform_item_rejected)
qed

lemma length_appended: "length (appended item) \<le> 1"
  by (simp add: appended_def split: sum.splits option.splits)

lemma transform_json_loop_eq:
  "transform_json_loop acc xs = Inr (acc @ concat (map appended xs))"
proof (induction xs arbitrary: acc)
  case Nil
  show ?case by simp
next
  case (Cons x xs)
  show ?case
  proof (cases "appended x")
    case Nil
    then show ?thesis by (simp add: transform_item_appended Cons.IH)
  next
    case (Cons y ys)
    with length_appended [of x] have "appended x = [y]" by simp
    then show ?thesis by (simp add: transform_item_appended Cons.IH)
  qed
qed

lemma transform_json_eq: "transform_json xs = Inr (concat (map appended xs))"
  by (simp add: transform_json_def transform_json_loop_eq)

text \<open>The two examples of the specification.\<close>

lemma transform_json_search_example:
  "transform_json [JDict [(''type'', JStr ''function''), (''function'',
      JDict [(''name'', JStr ''search''), (''description'', JStr ''find docs''),
        (''input_schema'', JDict [(''type'', JStr ''object''),
           (''properties'', JDict [(''q'', JDict [(''type'', JStr ''string'')])]),
           (''required'', JList [JStr ''q''])])])]] =
   Inr [JDict [(''type'', JStr ''function''), (''function'',
      JDict [(''name'', JStr ''search''), (''description'', JStr ''find docs''),
        (''parameters'', JDict [(''type'', JStr ''object''),
           (''properties'', JDict [(''q'', JDict [(''type'', JStr ''string'')])]),
           (''required'', JList [JStr ''q''])])])]]"
  by (simp add: transform_json_def transform_item_def bindE_def set_parameter_def)

lemma transform_json_no_description_example:
  "transform_json [JDict [(''type'', JStr ''function''),
      (''function'', JDict [(''name'', JStr ''x'')])]] = Inr []"
  by (simp add: transform_json_def transform_item_def bindE_def)

lemma kept_subseq:
  "\<exists>ks. subseq ks xs \<and> list_all2 (\<lambda>k y. appended k = [y]) ks (concat (map appended xs))"
proof (induction xs)
  case Nil
  show ?case by simp
next
  case (Cons x xs)
  then obtain ks where ks: "subseq ks xs"
    "list_all2 (\<lambda>k y. appended k = [y]) ks (concat (map appended xs))" by blast
  show ?case
  proof (cases "appended x")
    case Nil
    with ks show ?thesis by (intro exI [of _ ks]) auto
  next
    case (Cons y ys)
    with length_appended [of x] have "appended x = [y]" by simp
    with ks show ?thesis by (intro exI [of _ "x # ks"]) auto
  qed
qed

lemma length_concat_appended: "length (concat (map appended xs)) \<le> length xs"
proof (induction xs)
  case Nil
  show ?case by simp
next
  case (Cons x xs)
  with length_appended [of x] show ?case by simp
qed

text \<open>
  C8. For every input list, whatever its entries are, \<open>transform_json\<close> returns a list
  and raises nothing; the list is no longer than the input; and its elements are, one by
  one and in the same order, the translations of a subsequence \<open>ks\<close> of the input.
\<close>

theorem transform_json_never_raises:
  "\<exists>ys ks. transform_json xs = Inr ys \<and> length ys \<le> length xs \<and> subseq ks xs \<and>
     list_all2 (\<lambda>k y. transform_json [k] = Inr [y]) ks ys"
proof -
  obtain ks where ks: "subseq ks xs"
    "list_all2 (\<lambda>k y. appended k = [y]) ks (concat (map appended xs))"
    using kept_subseq by blast
  have "transform_json xs = Inr (concat (map appended xs))"
    by (rule transform_json_eq)
  moreover have "length (concat (map appended xs)) \<le> length xs"
    by (rule length_concat_appended)
  moreover have "list_all2 (\<lambda>k y. transform_json [k] = Inr [y]) ks (concat (map appended xs))"
    using ks(2) by (simp add: transform_json_eq)
  ultimately show ?thesis
    using ks(1) by blast
qed

text \<open>C8 on a list of a number, a valid descriptor and a string.\<close>

theorem transform_json_never_raises_witness:
  "\<exists>ys ks. transform_json [JNum 1, JDict [(''type'', JStr ''function''), (''function'', JDict [(''name'', JStr ''x''), (''description'', JStr ''y'')])], JStr ''z''] = Inr ys
     \<and> length ys \<le> 3 \<and>
     subseq ks [JNum 1, JDict [(''type'', JStr ''function''), (''function'', JDict [(''name'', JStr ''x''), (''description'', JStr ''y'')])], JStr ''z''] \<and>
     list_all2 (\<lambda>k y. transform_json [k] = Inr [y]) ks ys"
  using transform_json_never_raises [of "[JNum 1, JDict [(''type'', JStr ''function''), (''function'', JDict [(''name'', JStr ''x''), (''description'', JStr ''y'')])], JStr ''z'']"]
  by (simp add: numeral_3_eq_3)

text \<open>
  C1 as stated fails: an item with a valid \<open>"function"\<close> descriptor and no top-level
  \<open>"type"\<close> key meets the condition of the claim and is left out of the output.
\<close>

theorem transform_json_type_key_counterexample:
  "claimed_valid_item (JDict [(''function'', JDict [(''name'', JStr ''x''), (''description'', JStr ''y'')])])
   \<and> transform_json [JDict [(''function'', JDict [(''name'', JStr ''x''), (''description'', JStr ''y'')])]] = Inr []"
  by (simp add: claimed_valid_item_def valid_function_def transform_json_def transform_item_def)

text \<open>
  C1, amended. An item at any place of the input (after \<open>pre\<close>, before \<open>post\<close>)
  contributes one converted item, at the corresponding place of the output, if and only
  if it is a dict with a \<open>"type"\<close> key and a \<open>"function"\<close> key whose value is a dict with
  \<open>"name"\<close> and \<open>"description"\<close>; the converted item carries that name and description.
  Any other item contributes nothing, and no error is raised.
\<close>

theorem transform_json_includes_iff:
  "\<exists>ys zs. transform_json pre = Inr ys \<and> transform_json post = Inr zs \<and>
     (if accepted_item item
      then \<exists>f n d ps. getitem item ''function'' = Inr f \<and> getitem f ''name'' = Inr n \<and>
             getitem f ''description'' = Inr d \<and>
             transform_json (pre @ item # post) =
               Inr (ys @ [JDict [(''type'', JStr ''function''),
                                 (''function'', JDict [(''name'', n), (''description'', d),
                                                       (''parameters'', JDict ps)])]] @ zs)
      else transform_json (pre @ item # post) = Inr (ys @ zs))"
proof (cases "accepted_item item")
  case True
  then obtain kvs t f n d where "item = JDict kvs" "map_of kvs ''type'' = Some t"
    "map_of kvs ''function'' = Some (JDict f)" "map_of f ''name'' = Some n"
    "map_of f ''description'' = Some d"
    unfolding accepted_item_iff by blast
  with True show ?thesis
    by (simp add: transform_json_eq appended_accepted)
next
  case False
  then show ?thesis
    by (simp add: transform_json_eq appended_rejected)
qed

text \<open>C1, amended, on a list of a number, an accepted item and an item with no \<open>"type"\<close>.\<close>

theorem transform_json_includes_iff_witness:
  "transform_json [JNum 1, JDict [(''type'', JStr ''function''), (''function'', JDict [(''name'', JStr ''x''), (''description'', JStr ''y'')])],
       JDict [(''function'', JDict [(''name'', JStr ''x''), (''description'', JStr ''y'')])]]
   = Inr [JDict [(''type'', JStr ''function''), (''function'', JDict [(''name'', JStr ''x''), (''description'', JStr ''y''), (''parameters'', JDict [])])]]"
  using transform_json_includes_iff [of "[JNum 1]" "[JDict [(''function'', JDict [(''name'', JStr ''x''), (''description'', JStr ''y'')])]]"
     "JDict [(''type'', JStr ''function''), (''function'', JDict [(''name'', JStr ''x''), (''description'', JStr ''y'')])]"]
  by (simp add: transform_json_def transform_item_def bindE_def)

text \<open>
  C2 as stated fails: an item whose function descriptor is valid and has a dict as
  \<open>"input_schema"\<close>, but which has no top-level \<open>"type"\<close> key, has no output item at
  all, so no \<open>parameters\<close> either.
\<close>

theorem transform_json_parameters_type_key_counterexample:
  "claimed_valid_item (JDict [(''function'', JDict [(''name'', JStr ''x''),
       (''description'', JStr ''y''), (''input_schema'', JDict [(''type'', JStr ''string'')])])]) \<and>
   getitem (JDict [(''name'', JStr ''x''), (''description'', JStr ''y''),
       (''input_schema'', JDict [(''type'', JStr ''string'')])]) ''input_schema'' =
     Inr (JDict [(''type'', JStr ''string'')]) \<and>
   transform_json [JDict [(''function'', JDict [(''name'', JStr ''x''),
       (''description'', JStr ''y''), (''input_schema'', JDict [(''type'', JStr ''string'')])])]] =
     Inr []"
  by (simp add: claimed_valid_item_def valid_function_def transform_json_def transform_item_def)

text \<open>
  C2, amended. For an item that is a dict with a \<open>"type"\<close> key and a \<open>"function"\<close> key
  whose value is a dict with \<open>"name"\<close>, \<open>"description"\<close> and a dict as
  \<open>"input_schema"\<close>, the output item at the corresponding place carries that name and
  description, and its \<open>parameters\<close> have \<open>"type"\<close> equal to the schema's, or \<open>"object"\<close>
  when the schema has none; \<open>"properties"\<close> equal to the schema's, or the empty dict when
  it has none; a \<open>"required"\<close> key exactly when the schema has one, with the schema's
  value; and no other key.
\<close>

theorem transform_json_parameters:
  assumes "map_of kvs ''type'' = Some t"
    and "map_of kvs ''function'' = Some (JDict f)"
    and "map_of f ''name'' = Some n"
    and "map_of f ''description'' = Some d"
    and "map_of f ''input_schema'' = Some (JDict schema)"
  shows "\<exists>ys zs ps. transform_json pre = Inr ys \<and> transform_json post = Inr zs \<and>
     transform_json (pre @ JDict kvs # post) =
       Inr (ys @ [JDict [(''type'', JStr ''function''),
                         (''function'', JDict [(''name'', n), (''description'', d),
                                               (''parameters'', JDict ps)])]] @ zs) \<and>
     map_of ps ''type'' =
       Some (case map_of schema ''type'' of None \<Rightarrow> JStr ''object'' | Some ty \<Rightarrow> ty) \<and>
     map_of ps ''properties'' =
       Some (case map_of schema ''properties'' of None \<Rightarrow> JDict [] | Some props \<Rightarrow> props) \<and>
     map_of ps ''required'' = map_of schema ''required'' \<and>
     ((''required'' \<in> fst ` set ps) \<longleftrightarrow> (''required'' \<in> fst ` set schema)) \<and>
     fst ` set ps \<subseteq> {''type'', ''properties'', ''required''}"
proof -
  have ps: "expected_parameters f =
     [(''type'', case map_of schema ''type'' of None \<Rightarrow> JStr ''object'' | Some t \<Rightarrow> t),
      (''properties'', case map_of schema ''properties'' of None \<Rightarrow> JDict [] | Some p \<Rightarrow> p)]
     @ (case map_of schema ''required'' of None \<Rightarrow> [] | Some r \<Rightarrow> [(''required'', r)])"
    by (simp add: expected_parameters_def assms(5))
  have out: "appended (JDict kvs) = [JDict [(''type'', JStr ''function''),
           (''function'', JDict [(''name'', n), (''description'', d),
              (''parameters'', JDict (expected_parameters f))])]]"
    using assms(1-4) by (rule appended_accepted)
  have req: "(''required'' \<in> fst ` set schema) \<longleftrightarrow> map_of schema ''required'' \<noteq> None"
    by (simp add: map_of_eq_None_iff)
  show ?thesis
    apply (rule exI [of _ "concat (map appended pre)"], rule exI [of _ "concat (map appended post)"],
        rule exI [of _ "expected_parameters f"])
    apply (simp add: transform_json_eq out)
    apply (simp add: ps req split: option.splits)
    done
qed

text \<open>
  C2, amended, on a schema with \<open>"type"\<close> \<open>"string"\<close> and a \<open>"required"\<close> list but no
  \<open>"properties"\<close>, after an entry that is dropped.
\<close>

theorem transform_json_parameters_witness:
  "\<exists>ps. transform_json
       [JNum 1,
        JDict [(''type'', JStr ''function''), (''function'', JDict [(''name'', JStr ''x''),
          (''description'', JStr ''y''),
          (''input_schema'', JDict [(''type'', JStr ''string''), (''required'', JList [JStr ''q''])])])]] =
       Inr [JDict [(''type'', JStr ''function''),
                   (''function'', JDict [(''name'', JStr ''x''), (''description'', JStr ''y''),
                                         (''parameters'', JDict ps)])]] \<and>
     map_of ps ''type'' = Some (JStr ''string'') \<and>
     map_of ps ''properties'' = Some (JDict []) \<and>
     map_of ps ''required'' = Some (JList [JStr ''q''])"
  using transform_json_parameters [of
      "[(''type'', JStr ''function''), (''function'', JDict [(''name'', JStr ''x''),
          (''description'', JStr ''y''),
          (''input_schema'', JDict [(''type'', JStr ''string''), (''required'', JList [JStr ''q''])])])]"
      "JStr ''function''"
      "[(''name'', JStr ''x''), (''description'', JStr ''y''),
          (''input_schema'', JDict [(''type'', JStr ''string''), (''required'', JList [JStr ''q''])])]"
      "JStr ''x''" "JStr ''y''"
      "[(''type'', JStr ''string''), (''required'', JList [JStr ''q''])]"
      "[JNum 1]" "[]"]
  by (auto simp add: transform_json_def transform_item_def)

text \<open>
  C9. For an accepted item whose function has no \<open>"input_schema"\<close> key, or has one whose
  value is not a dict, the \<open>parameters\<close> of the output item are the empty dict.
\<close>

theorem transform_json_no_schema:
  assumes "accepted_item item"
    and "getitem item ''function'' = Inr f"
    and "\<not> has_key ''input_schema'' f \<or>
         (\<exists>s. getitem f ''input_schema'' = Inr s \<and> \<not> isinstance_dict s)"
  shows "\<exists>ys zs n d. transform_json pre = Inr ys \<and> transform_json post = Inr zs \<and>
     transform_json (pre @ item # post) =
       Inr (ys @ [JDict [(''type'', JStr ''function''),
                         (''function'', JDict [(''name'', n), (''description'', d),
                                               (''parameters'', JDict [])])]] @ zs)"
proof -
  from assms(1) obtain kvs t f' n d where item: "item = JDict kvs" "map_of kvs ''type'' = Some t"
    "map_of kvs ''function'' = Some (JDict f')" "map_of f' ''name'' = Some n"
    "map_of f' ''description'' = Some d"
    unfolding accepted_item_iff by blast
  with assms(2) have f: "f = JDict f'" by simp
  with assms(3) have ps: "expected_parameters f' = []"
    by (auto simp add: expected_parameters_def split: option.splits json.splits)
  have out: "appended item = [JDict [(''type'', JStr ''function''),
           (''function'', JDict [(''name'', n), (''description'', d),
              (''parameters'', JDict (expected_parameters f'))])]]"
    using item by (simp add: appended_accepted)
  show ?thesis
    by (rule exI [of _ "concat (map appended pre)"], rule exI [of _ "concat (map appended post)"], rule exI [of _ n], rule exI [of _ d]) (simp add: transform_json_eq out ps)
qed

text \<open>C9 on a function whose \<open>"input_schema"\<close> is a string.\<close>

theorem transform_json_no_schema_witness:
  "\<exists>ys zs n d. transform_json [] = Inr ys \<and> transform_json [] = Inr zs \<and>
     transform_json ([] @ JDict [(''type'', JNull), (''function'', JDict [(''name'', JStr ''x''), (''description'', JStr ''y''), (''input_schema'', JStr ''s'')])] # []) =
       Inr (ys @ [JDict [(''type'', JStr ''function''),
                         (''function'', JDict [(''name'', n), (''description'', d),
                                               (''parameters'', JDict [])])]] @ zs)"
  using transform_json_no_schema [of "JDict [(''type'', JNull), (''function'', JDict [(''name'', JStr ''x''), (''description'', JStr ''y''), (''input_schema'', JStr ''s'')])]"
     "JDict [(''name'', JStr ''x''), (''description'', JStr ''y''), (''input_schema'', JStr ''s'')]" "[]" "[]"]
  by (simp add: accepted_item_def claimed_valid_item_def valid_function_def)

text \<open>
  C10. An item with a \<open>"type"\<close> key, whatever its value, and a \<open>"function"\<close> key whose
  value is a dict with \<open>"name"\<close> and \<open>"description"\<close> is converted: the output has, at
  the corresponding place, the item with top-level \<open>"type"\<close> \<open>"function"\<close>, that name
  and description, and the parameters built from the function's \<open>"input_schema"\<close>.
  Storing any other value under the item's \<open>"type"\<close> leaves the output the same.
\<close>

theorem transform_json_type_value_ignored:
  assumes "map_of kvs ''type'' = Some v"
    and "map_of kvs ''function'' = Some (JDict f)"
    and "map_of f ''name'' = Some n"
    and "map_of f ''description'' = Some d"
  shows "\<exists>ys zs. transform_json pre = Inr ys \<and> transform_json post = Inr zs \<and>
     transform_json (pre @ JDict kvs # post) =
       Inr (ys @ [JDict [(''type'', JStr ''function''),
                         (''function'', JDict [(''name'', n), (''description'', d),
                            (''parameters'', JDict (expected_parameters f))])]] @ zs) \<and>
     (\<forall>v'. transform_json (pre @ JDict (AList.update ''type'' v' kvs) # post) =
       Inr (ys @ [JDict [(''type'', JStr ''function''),
                         (''function'', JDict [(''name'', n), (''description'', d),
                            (''parameters'', JDict (expected_parameters f))])]] @ zs))"
proof -
  have out: "appended (JDict kvs) = [JDict [(''type'', JStr ''function''),
           (''function'', JDict [(''name'', n), (''description'', d),
              (''parameters'', JDict (expected_parameters f))])]]"
    using assms by (rule appended_accepted)
  have out': "appended (JDict (AList.update ''type'' v' kvs)) = [JDict [(''type'', JStr ''function''),
           (''function'', JDict [(''name'', n), (''description'', d),
              (''parameters'', JDict (expected_parameters f))])]]" for v'
    using assms(2-4) by (intro appended_accepted [where t = v']) (simp_all add: update_conv')
  show ?thesis
    by (rule exI [of _ "concat (map appended pre)"], rule exI [of _ "concat (map appended post)"])
       (simp add: transform_json_eq out out')
qed

text \<open>C10 on an item whose \<open>"type"\<close> is \<open>"custom"\<close> and whose schema is empty.\<close>

theorem transform_json_type_value_ignored_witness:
  "transform_json [JDict [(''type'', JStr ''custom''), (''function'', JDict [(''name'', JStr ''x''),
       (''description'', JStr ''y''), (''input_schema'', JDict [])])]] =
     Inr [JDict [(''type'', JStr ''function''), (''function'', JDict [(''name'', JStr ''x''),
       (''description'', JStr ''y''),
       (''parameters'', JDict [(''type'', JStr ''object''), (''properties'', JDict [])])])]] \<and>
   (\<forall>v'. transform_json [JDict (AList.update ''type'' v' [(''type'', JStr ''custom''),
       (''function'', JDict [(''name'', JStr ''x''), (''description'', JStr ''y''),
          (''input_schema'', JDict [])])])] =
     Inr [JDict [(''type'', JStr ''function''), (''function'', JDict [(''name'', JStr ''x''),
       (''description'', JStr ''y''),
       (''parameters'', JDict [(''type'', JStr ''object''), (''properties'', JDict [])])])]])"
  using transform_json_type_value_ignored [of
      "[(''type'', JStr ''custom''), (''function'', JDict [(''name'', JStr ''x''),
          (''description'', JStr ''y''), (''input_schema'', JDict [])])]"
      "JStr ''custom''"
      "[(''name'', JStr ''x''), (''description'', JStr ''y''), (''input_schema'', JDict [])]"
      "JStr ''x''" "JStr ''y''" "[]" "[]"]
  by (simp add: expected_parameters_def transform_json_def)

section \<open>Properties of the connection manager\<close>

lemma aclose_loop_log: "snd (aclose_loop m st pending tr) = tr @ map Exit st"
  by (induction st arbitrary: pending tr) (simp_all split: sum.splits)

lemma aclose_result:
  "\<exists>r. aclose m c tr = (r, c\<lparr>exit_stack := []\<rparr>, tr @ map Exit (exit_stack c))"
proof (cases "aclose_loop m (exit_stack c) None tr")
  case (Pair pending tr')
  with aclose_loop_log [of m "exit_stack c" None tr]
  have "tr' = tr @ map Exit (exit_stack c)" by simp
  with Pair show ?thesis
    by (cases pending) (simp_all add: aclose_def)
qed

lemma aclose_empty:
  "exit_stack c = [] \<Longrightarrow> aclose m c tr = (Inr (), c, tr)"
  by (simp add: aclose_def)

lemma cleanup_empty:
  "exit_stack c = [] \<Longrightarrow>
   cleanup m c tr = (Inr (), c\<lparr>session := None, stdio_read := None, stdio_write := None\<rparr>, tr)"
  by (simp add: cleanup_def aclose_empty)

lemma cleanup_result:
  "cleanup m c tr = (r, c', tr') \<Longrightarrow> exit_stack c' = [] \<and> tr' = tr @ map Exit (exit_stack c)"
  using aclose_result [of m c tr]
  by (auto simp add: cleanup_def split: sum.splits)

lemma cleanup_returns:
  "cleanup m c tr = (Inr u, c', tr') \<Longrightarrow>
     c' = c\<lparr>exit_stack := [], session := None, stdio_read := None, stdio_write := None\<rparr>"
  using aclose_result [of m c tr]
  by (auto simp add: cleanup_def split: sum.splits)

text \<open>
  C4. On a client with no session, a path that ends in neither \<open>.py\<close> nor \<open>.js\<close>
  makes \<open>connect_and_list_tools\<close> raise \<open>ValueError\<close> with the client and the log of
  external calls as they were: nothing has been launched, entered or acquired.
\<close>

theorem connect_unsupported_suffix:
  assumes "session c = None"
    and "\<not> endswith path ''.py''" and "\<not> endswith path ''.js''"
  shows "connect_and_list_tools m path c tr = (Inl ValueError, c, tr)"
  using assms by (simp add: connect_and_list_tools_def)

text \<open>C4 on \<open>server.exe\<close>.\<close>

theorem connect_unsupported_suffix_witness:
  "session example_client = None \<and> \<not> endswith ''server.exe'' ''.py'' \<and>
   \<not> endswith ''server.exe'' ''.js'' \<and>
   connect_and_list_tools (example_mcp (Inr ()) (Inr False)) ''server.exe'' example_client [] =
     (Inl ValueError, example_client, [])"
  using connect_unsupported_suffix [of example_client "''server.exe''" "example_mcp (Inr ()) (Inr False)" "[]"]
  by (simp add: example_client_def endswith_def suffix_to_prefix)

text \<open>
  C6. On a client that has a session, \<open>connect_and_list_tools\<close> with any path at all
  makes one external call, the tool listing on that session, returns what that call
  yields now (the tools, or the exception it raises), and leaves the client as it was.
\<close>

theorem connect_when_connected:
  assumes "session c = Some s"
  shows "connect_and_list_tools m path c tr = (session_list_tools m tr s, c, tr @ [ListTools s])"
  using assms by (simp add: connect_and_list_tools_def split: sum.splits)

text \<open>
  C6 on a connected client and an unsupported path, called twice: the second call
  returns the list the server has by then, not the first one.
\<close>

theorem connect_when_connected_witness:
  "session (example_client\<lparr>session := Some 2\<rparr>) = Some 2 \<and>
   connect_and_list_tools (example_mcp (Inr ()) (Inr False)) ''server.exe''
     (example_client\<lparr>session := Some 2\<rparr>) [] =
     (Inr [], example_client\<lparr>session := Some 2\<rparr>, [ListTools 2]) \<and>
   connect_and_list_tools (example_mcp (Inr ()) (Inr False)) ''server.exe''
     (example_client\<lparr>session := Some 2\<rparr>) [ListTools 2] =
     (Inr [\<lparr>tool_name = ''rag_ML'', tool_description = ''search''\<rparr>],
      example_client\<lparr>session := Some 2\<rparr>, [ListTools 2, ListTools 2])"
  using connect_when_connected [of "example_client\<lparr>session := Some 2\<rparr>" 2 "example_mcp (Inr ()) (Inr False)" "''server.exe''" "[]"]
    connect_when_connected [of "example_client\<lparr>session := Some 2\<rparr>" 2 "example_mcp (Inr ()) (Inr False)" "''server.exe''" "[ListTools 2]"]
  by (simp add: example_client_def example_mcp_def)

text \<open>A first connection on the example client, against a server that behaves.\<close>

lemma connect_example:
  "connect_and_list_tools (example_mcp (Inr ()) (Inr False)) ''server.py'' example_client [] =
     (Inr [], connected_client,
      [Enter (StdioClient \<lparr>command = ''python'', args = [''server.py''], env = None\<rparr>),
       Enter (ClientSession 0 1), Initialize 2, ListTools 2])"
  by (simp add: connect_and_list_tools_def connect_try_def example_mcp_def example_client_def
      connected_client_def endswith_def suffix_to_prefix Let_def)

lemma init_fields:
  "MCPClient_init getenv = Inr c \<Longrightarrow>
     exit_stack c = [] \<and> session c = None \<and> stdio_read c = None \<and> stdio_write c = None"
  by (auto simp add: MCPClient_init_def split: option.splits if_splits)

lemma cleanup_fixed_point:
  assumes "exit_stack c = []" "session c = None" "stdio_read c = None" "stdio_write c = None"
  shows "cleanup m c tr = (Inr (), c, tr)"
  using assms by (simp add: cleanup_empty)

lemma cleanup_times_fixed_point:
  assumes "cleanup m c tr = (Inr (), c, tr)"
  shows "cleanup_times n m c tr = (Inr (), c, tr)"
  using assms by (induction n) simp_all

text \<open>
  C7. On a client as \<open>__init__\<close> leaves it, \<open>cleanup\<close> returns without raising, makes no
  external call and leaves the client as it was, with session, read stream and write
  stream unset; so does any number of calls in a row. After any \<open>cleanup\<close> that has
  returned, on whatever client, the three fields are unset and any number of further
  calls return without raising, make no external call and change nothing.
\<close>

theorem cleanup_idempotent:
  "(MCPClient_init getenv = Inr c \<longrightarrow>
      cleanup m c tr = (Inr (), c, tr) \<and>
      session c = None \<and> stdio_read c = None \<and> stdio_write c = None \<and>
      (\<forall>n. cleanup_times n m c tr = (Inr (), c, tr)))
   \<and> (cleanup m c0 tr0 = (Inr u, c1, tr1) \<longrightarrow>
      session c1 = None \<and> stdio_read c1 = None \<and> stdio_write c1 = None \<and>
      (\<forall>n. cleanup_times n m c1 tr1 = (Inr (), c1, tr1)))"
proof (intro conjI impI)
  assume "MCPClient_init getenv = Inr c"
  then have f: "exit_stack c = []" "session c = None" "stdio_read c = None" "stdio_write c = None"
    using init_fields by blast+
  then show fp: "cleanup m c tr = (Inr (), c, tr)"
    by (rule cleanup_fixed_point)
  show "session c = None" "stdio_read c = None" "stdio_write c = None"
    by (rule f)+
  show "\<forall>n. cleanup_times n m c tr = (Inr (), c, tr)"
    using fp by (simp add: cleanup_times_fixed_point)
next
  assume a: "cleanup m c0 tr0 = (Inr u, c1, tr1)"
  then have c1: "c1 = c0\<lparr>exit_stack := [], session := None, stdio_read := None,
      stdio_write := None\<rparr>"
    by (rule cleanup_returns)
  then show "session c1 = None" "stdio_read c1 = None" "stdio_write c1 = None"
    by simp_all
  from c1 have "cleanup m c1 tr1 = (Inr (), c1, tr1)"
    by (intro cleanup_fixed_point) simp_all
  then show "\<forall>n. cleanup_times n m c1 tr1 = (Inr (), c1, tr1)"
    by (simp add: cleanup_times_fixed_point)
qed

text \<open>C7 on the example client, fresh and after a connection.\<close>

theorem cleanup_idempotent_witness:
  "MCPClient_init example_getenv = Inr example_client \<and>
   cleanup (example_mcp (Inr ()) (Inr False)) connected_client [] =
     (Inr (), example_client,
      [Exit (ClientSession 0 1), Exit (StdioClient \<lparr>command = ''python'', args = [''server.py''], env = None\<rparr>)]) \<and>
   cleanup (example_mcp (Inr ()) (Inr False)) example_client [] = (Inr (), example_client, []) \<and>
   (\<forall>n. cleanup_times n (example_mcp (Inr ()) (Inr False)) example_client [] = (Inr (), example_client, [])) \<and>
   (\<forall>n. cleanup_times n (example_mcp (Inr ()) (Inr False)) example_client
      [Exit (ClientSession 0 1), Exit (StdioClient \<lparr>command = ''python'', args = [''server.py''], env = None\<rparr>)] =
      (Inr (), example_client, [Exit (ClientSession 0 1), Exit (StdioClient \<lparr>command = ''python'', args = [''server.py''], env = None\<rparr>)]))"
proof -
  have i: "MCPClient_init example_getenv = Inr example_client"
    by (simp add: MCPClient_init_def example_getenv_def example_client_def)
  have c: "cleanup (example_mcp (Inr ()) (Inr False)) connected_client [] =
     (Inr (), example_client,
      [Exit (ClientSession 0 1), Exit (StdioClient \<lparr>command = ''python'', args = [''server.py''], env = None\<rparr>)])"
    by (simp add: cleanup_def aclose_def example_mcp_def connected_client_def example_client_def)
  show ?thesis
    using cleanup_idempotent [of example_getenv example_client "example_mcp (Inr ()) (Inr False)" "[]"
        connected_client "[]" "()" example_client
        "[Exit (ClientSession 0 1), Exit (StdioClient \<lparr>command = ''python'', args = [''server.py''], env = None\<rparr>)]"]
      i c
    by simp
qed









section \<open>Properties of the retrieval tool\<close>

text \<open>
  C3. Whenever the configuration and the three tables load, \<open>rag_ML\<close> calls the global
  search once, with community level 2, dynamic community selection off, response type
  \<open>"Multiple Paragraphs"\<close> and the caller's query, and returns the first component of
  the pair the search yields (or raises what the search raises); the context is dropped.
  When a load raises, \<open>rag_ML\<close> raises before any search call.
\<close>

theorem rag_ML_global_search:
  "(artifacts_load g tr \<longrightarrow>
      (\<exists>a. snd (rag_ML g q tr) = tr @ load_calls @ [GlobalSearch a] \<and>
           community_level a = 2 \<and> dynamic_community_selection a = False \<and>
           response_type a = ''Multiple Paragraphs'' \<and> query a = q \<and>
           fst (rag_ML g q tr) = map_sum id fst (global_search g (tr @ load_calls) a)))
   \<and> (\<not> artifacts_load g tr \<longrightarrow>
      (\<exists>e calls. rag_ML g q tr = (Inl e, tr @ calls) \<and> prefix calls load_calls))"
  by (auto simp add: rag_ML_def artifacts_load_def load_calls_def Let_def
      split: sum.splits prod.splits)

text \<open>C3 on a library whose loads succeed, and on one whose configuration is missing.\<close>

theorem rag_ML_global_search_witness:
  "artifacts_load (example_graphrag (Inr 0)) [] \<and>
   rag_ML (example_graphrag (Inr 0)) ''why'' [] =
     (Inr ''re: why'',
      load_calls @ [GlobalSearch \<lparr>config = 0, entities = 1, communities = 2,
        community_reports = 3, community_level = 2, dynamic_community_selection = False,
        response_type = ''Multiple Paragraphs'', query = ''why''\<rparr>]) \<and>
   \<not> artifacts_load (example_graphrag (Inl FileNotFoundError)) [] \<and>
   rag_ML (example_graphrag (Inl FileNotFoundError)) ''why'' [] =
     (Inl FileNotFoundError, [LoadConfig PROJECT_DIRECTORY])"
  using rag_ML_global_search [of "example_graphrag (Inr 0)" "[]" "''why''"]
    rag_ML_global_search [of "example_graphrag (Inl FileNotFoundError)" "[]" "''why''"]
  by (simp add: rag_ML_def artifacts_load_def load_calls_def example_graphrag_def Let_def)

end
